theory Spec2Isabelle
  imports Complex_Main
begin

section \<open>JavaScript values used by the scripts\<close>

text \<open>
  The repository holds two variants of one k6 load-test script:
  \<^verbatim>\<open>src/fulle2etest.js\<close> and \<^verbatim>\<open>src/unnamed/part_000\<close>.
  Both are embedded here. Strings are lists of 8-bit characters. A JavaScript number is
  an exact rational, or one of the three special values; the rounding of IEEE doubles
  to 53 bits is not modelled, so the model agrees with the scripts wherever the values
  are represented exactly (every integer below \<open>2 ^ 53\<close>, for instance).
\<close>

datatype number = NaN | Infinity | NegInfinity | Num rat

text \<open>\<^verbatim>\<open>!!n\<close> for a number: \<^verbatim>\<open>NaN\<close> and zero are falsy.\<close>

fun number_truthy :: "number \<Rightarrow> bool" where
  "number_truthy NaN = False"
| "number_truthy (Num q) = (q \<noteq> 0)"
| "number_truthy _ = True"

text \<open>\<^verbatim>\<open>a || b\<close> on numbers.\<close>

definition number_or :: "number \<Rightarrow> number \<Rightarrow> number" where
  "number_or a b = (if number_truthy a then a else b)"

text \<open>\<^verbatim>\<open>a * b\<close>, where \<open>b\<close> is a finite positive constant (60, 3600).\<close>

fun times_const :: "number \<Rightarrow> rat \<Rightarrow> number" where
  "times_const (Num q) k = Num (q * k)"
| "times_const n k = n"

text \<open>\<^verbatim>\<open>a / b\<close>, where \<open>b\<close> is a finite positive constant (10).\<close>

fun divide_const :: "number \<Rightarrow> rat \<Rightarrow> number" where
  "divide_const (Num q) k = Num (q / k)"
| "divide_const n k = n"

text \<open>\<^verbatim>\<open>Math.round\<close>: the nearest integer, a tie going up.\<close>

fun math_round :: "number \<Rightarrow> number" where
  "math_round (Num q) = Num (of_int \<lfloor>q + 1 / 2\<rfloor>)"
| "math_round n = n"

text \<open>\<^verbatim>\<open>Math.max(a, b)\<close>: \<^verbatim>\<open>NaN\<close> as soon as one argument is.\<close>

fun math_max :: "number \<Rightarrow> number \<Rightarrow> number" where
  "math_max NaN b = NaN"
| "math_max a NaN = NaN"
| "math_max Infinity b = Infinity"
| "math_max a Infinity = Infinity"
| "math_max NegInfinity b = b"
| "math_max a NegInfinity = a"
| "math_max (Num p) (Num q) = Num (max p q)"

subsection \<open>Characters and \<^verbatim>\<open>trim\<close>\<close>

definition is_digit :: "char \<Rightarrow> bool" where
  "is_digit c = (c \<in> set ''0123456789'')"

text \<open>The value of a digit in radix 16 or less; letters in either case.\<close>

definition digit_table :: "(char \<times> nat) list" where
  "digit_table =
     [(CHR ''0'', 0), (CHR ''1'', 1), (CHR ''2'', 2), (CHR ''3'', 3), (CHR ''4'', 4),
      (CHR ''5'', 5), (CHR ''6'', 6), (CHR ''7'', 7), (CHR ''8'', 8), (CHR ''9'', 9),
      (CHR ''a'', 10), (CHR ''b'', 11), (CHR ''c'', 12), (CHR ''d'', 13), (CHR ''e'', 14),
      (CHR ''f'', 15), (CHR ''A'', 10), (CHR ''B'', 11), (CHR ''C'', 12), (CHR ''D'', 13),
      (CHR ''E'', 14), (CHR ''F'', 15)]"

definition digit_value :: "nat \<Rightarrow> char \<Rightarrow> nat option" where
  "digit_value radix c =
     (case map_of digit_table c of
        None \<Rightarrow> None
      | Some d \<Rightarrow> if d < radix then Some d else None)"

text \<open>The number a string of digits denotes in a radix; \<open>None\<close> when the string is
  empty or holds a character that is no digit of the radix.\<close>

fun digits_from :: "nat \<Rightarrow> nat \<Rightarrow> string \<Rightarrow> nat option" where
  "digits_from radix acc [] = Some acc"
| "digits_from radix acc (c # cs) =
     (case digit_value radix c of
        None \<Rightarrow> None
      | Some d \<Rightarrow> digits_from radix (acc * radix + d) cs)"

definition digits_value :: "nat \<Rightarrow> string \<Rightarrow> nat option" where
  "digits_value radix s = (if s = [] then None else digits_from radix 0 s)"

text \<open>White space and line terminators among the 8-bit characters: tab, line feed,
  vertical tab, form feed, carriage return, space and the no-break space.\<close>

definition is_space :: "char \<Rightarrow> bool" where
  "is_space c = ((of_char c :: nat) \<in> set [9, 10, 11, 12, 13, 32, 160])"

definition trim :: "string \<Rightarrow> string" where
  "trim s = rev (dropWhile is_space (rev (dropWhile is_space s)))"

definition lower_table :: "(char \<times> char) list" where
  "lower_table = zip ''ABCDEFGHIJKLMNOPQRSTUVWXYZ'' ''abcdefghijklmnopqrstuvwxyz''"

definition to_lower :: "char \<Rightarrow> char" where
  "to_lower c = (case map_of lower_table c of None \<Rightarrow> c | Some l \<Rightarrow> l)"

definition toLowerCase :: "string \<Rightarrow> string" where
  "toLowerCase s = map to_lower s"

subsection \<open>\<^verbatim>\<open>Number(string)\<close>\<close>

text \<open>
  \<^verbatim>\<open>Number\<close> applied to a string follows the grammar of ECMAScript's
  \<^verbatim>\<open>StringToNumber\<close>: surrounding white space is dropped; the empty string
  is 0; \<^verbatim>\<open>0x\<close>, \<^verbatim>\<open>0o\<close> and \<^verbatim>\<open>0b\<close> introduce unsigned integers in
  radix 16, 8 and 2; otherwise the text is an optionally signed \<^verbatim>\<open>Infinity\<close> or
  decimal literal with an optional fraction and exponent; anything else is \<^verbatim>\<open>NaN\<close>.
\<close>

definition pow10 :: "int \<Rightarrow> rat" where
  "pow10 e = (if 0 \<le> e then 10 ^ nat e else 1 / 10 ^ nat (- e))"

text \<open>A signed integer: the exponent after \<^verbatim>\<open>e\<close>.\<close>

definition signed_integer :: "string \<Rightarrow> int option" where
  "signed_integer s =
     (case s of
        [] \<Rightarrow> None
      | c # cs \<Rightarrow>
          if c = CHR ''-'' then map_option (\<lambda>n. - int n) (digits_value 10 cs)
          else if c = CHR ''+'' then map_option int (digits_value 10 cs)
          else map_option int (digits_value 10 s))"

text \<open>The mantissa \<^verbatim>\<open>digits\<close>, \<^verbatim>\<open>digits.\<close>, \<^verbatim>\<open>digits.digits\<close> or
  \<^verbatim>\<open>.digits\<close>: its digits as one integer and the number of digits after the point.\<close>

definition mantissa :: "string \<Rightarrow> (nat \<times> nat) option" where
  "mantissa s =
     (let ip = takeWhile is_digit s; rest = dropWhile is_digit s
      in case rest of
           [] \<Rightarrow> map_option (\<lambda>n. (n, 0)) (digits_value 10 ip)
         | c # fp \<Rightarrow>
             if c = CHR ''.'' \<and> list_all is_digit fp \<and> (ip \<noteq> [] \<or> fp \<noteq> [])
             then map_option (\<lambda>n. (n, length fp)) (digits_value 10 (ip @ fp))
             else None)"

definition is_exponent_mark :: "char \<Rightarrow> bool" where
  "is_exponent_mark c = (c = CHR ''e'' \<or> c = CHR ''E'')"

definition unsigned_decimal :: "string \<Rightarrow> rat option" where
  "unsigned_decimal s =
     (let m = takeWhile (\<lambda>c. \<not> is_exponent_mark c) s;
          r = dropWhile (\<lambda>c. \<not> is_exponent_mark c) s
      in case mantissa m of
           None \<Rightarrow> None
         | Some (n, k) \<Rightarrow>
             (case r of
                [] \<Rightarrow> Some (of_nat n * pow10 (- int k))
              | c # ex \<Rightarrow>
                  (case signed_integer ex of
                     None \<Rightarrow> None
                   | Some e \<Rightarrow> Some (of_nat n * pow10 (e - int k)))))"

definition unsigned_literal :: "string \<Rightarrow> number" where
  "unsigned_literal s =
     (if s = ''Infinity'' then Infinity
      else case unsigned_decimal s of None \<Rightarrow> NaN | Some q \<Rightarrow> Num q)"

fun negate :: "number \<Rightarrow> number" where
  "negate NaN = NaN"
| "negate Infinity = NegInfinity"
| "negate NegInfinity = Infinity"
| "negate (Num q) = Num (- q)"

definition radix_literal :: "string \<Rightarrow> nat option" where
  "radix_literal s =
     (case s of
        z # p # ds \<Rightarrow>
          if z \<noteq> CHR ''0'' then None
          else if p = CHR ''x'' \<or> p = CHR ''X'' then digits_value 16 ds
          else if p = CHR ''o'' \<or> p = CHR ''O'' then digits_value 8 ds
          else if p = CHR ''b'' \<or> p = CHR ''B'' then digits_value 2 ds
          else None
      | _ \<Rightarrow> None)"

definition to_number :: "string \<Rightarrow> number" where
  "to_number s =
     (let t = trim s
      in case t of
           [] \<Rightarrow> Num 0
         | c # cs \<Rightarrow>
             (case radix_literal t of
                Some n \<Rightarrow> Num (of_nat n)
              | None \<Rightarrow>
                  if c = CHR ''-'' then negate (unsigned_literal cs)
                  else if c = CHR ''+'' then unsigned_literal cs
                  else unsigned_literal t))"

section \<open>The configuration layer\<close>

subsection \<open>\<^verbatim>\<open>resolveDurationSeconds\<close>\<close>

text \<open>
  The regular expression \<^verbatim>\<open>/^(\d+)([smh]?)$/i\<close>: one or more digits, then at most
  one of the letters s, m, h in either case, then the end of the text. The result holds
  the two groups.
\<close>

definition match_duration :: "string \<Rightarrow> (string \<times> string) option" where
  "match_duration raw =
     (let ds = takeWhile is_digit raw; rest = dropWhile is_digit raw
      in if ds = [] then None
         else case rest of
                [] \<Rightarrow> Some (ds, [])
              | [u] \<Rightarrow> if u \<in> set ''smhSMH'' then Some (ds, [u]) else None
              | _ \<Rightarrow> None)"

text \<open>
  \<^verbatim>\<open>resolveDurationSeconds(value)\<close> of \<^verbatim>\<open>src/fulle2etest.js\<close>. Its only
  caller passes a string (\<^verbatim>\<open>__ENV.DURATION || '1m'\<close>), for which
  \<^verbatim>\<open>String(value || '')\<close> is the string itself.
\<close>

definition resolveDurationSeconds :: "string \<Rightarrow> number" where
  "resolveDurationSeconds v =
     (let raw = trim v
      in case match_duration raw of
           None \<Rightarrow> number_or (to_number raw) (Num 60)
         | Some (digits, u) \<Rightarrow>
             (let amount = to_number digits; unit = toLowerCase u
              in if unit = ''m'' then times_const amount 60
                 else if unit = ''h'' then times_const amount 3600
                 else amount))"

text \<open>The same function as \<^verbatim>\<open>src/unnamed/part_000\<close> declares it.\<close>

definition resolveDurationSeconds_part_000 :: "string \<Rightarrow> number" where
  "resolveDurationSeconds_part_000 v =
     (let raw = trim v
      in case match_duration raw of
           None \<Rightarrow> number_or (to_number raw) (Num 60)
         | Some (digits, u) \<Rightarrow>
             (let amount = to_number digits; unit = toLowerCase u
              in if unit = ''m'' then times_const amount 60
                 else if unit = ''h'' then times_const amount 3600
                 else amount))"

subsection \<open>The options derived from the environment\<close>

text \<open>The variables of \<^verbatim>\<open>__ENV\<close> that the scripts read; \<open>None\<close> is an unset
  variable.\<close>

record env =
  BASE_URL :: "string option"
  VUS :: "string option"
  DURATION :: "string option"
  CLOUD_PROJECT_ID :: "string option"

text \<open>\<^verbatim>\<open>__ENV.X || 'default'\<close>: an unset or empty variable gives the default.\<close>

definition env_string :: "string option \<Rightarrow> string \<Rightarrow> string" where
  "env_string x d = (case x of None \<Rightarrow> d | Some s \<Rightarrow> if s = [] then d else s)"

text \<open>\<^verbatim>\<open>Number(__ENV.X || d)\<close> with a numeric default \<open>d\<close>.\<close>

definition env_number :: "string option \<Rightarrow> rat \<Rightarrow> number" where
  "env_number x d =
     (case x of None \<Rightarrow> Num d | Some s \<Rightarrow> if s = [] then Num d else to_number s)"

text \<open>A stage \<^verbatim>\<open>{ duration: `${seconds}s`, target: t }\<close>: the duration is kept as
  the number of seconds that the template literal prints before the letter s.\<close>

record stage =
  duration :: number
  target :: number

record k6_options =
  stages :: "stage list"
  cloud_projectID :: number
  thresholds :: "(string \<times> string list) list"

text \<open>Lines 6 to 25 of \<^verbatim>\<open>src/fulle2etest.js\<close>.\<close>

definition baseUrl :: "env \<Rightarrow> string" where
  "baseUrl e = env_string (BASE_URL e) ''http://localhost:8000''"

definition virtualUsers :: "env \<Rightarrow> number" where
  "virtualUsers e = env_number (VUS e) 5"

definition durationSeconds :: "env \<Rightarrow> number" where
  "durationSeconds e = resolveDurationSeconds (env_string (DURATION e) ''1m'')"

definition rampSeconds :: "env \<Rightarrow> number" where
  "rampSeconds e = math_max (Num 1) (math_round (divide_const (durationSeconds e) 10))"

definition cloudProjectId :: "env \<Rightarrow> number" where
  "cloudProjectId e = env_number (CLOUD_PROJECT_ID e) 6019612"

definition options :: "env \<Rightarrow> k6_options" where
  "options e =
     \<lparr> stages =
         [\<lparr> duration = rampSeconds e, target = virtualUsers e \<rparr>,
          \<lparr> duration = durationSeconds e, target = virtualUsers e \<rparr>,
          \<lparr> duration = rampSeconds e, target = Num 0 \<rparr>],
       cloud_projectID = cloudProjectId e,
       thresholds =
         [(''http_req_duration'', [''p(90)<1200'', ''p(95)<1500'']),
          (''checks'', [''rate>=0.99''])] \<rparr>"

text \<open>Lines 6 to 25 of \<^verbatim>\<open>src/unnamed/part_000\<close>.\<close>

definition baseUrl_part_000 :: "env \<Rightarrow> string" where
  "baseUrl_part_000 e = env_string (BASE_URL e) ''http://localhost:8000''"

definition virtualUsers_part_000 :: "env \<Rightarrow> number" where
  "virtualUsers_part_000 e = env_number (VUS e) 5"

definition durationSeconds_part_000 :: "env \<Rightarrow> number" where
  "durationSeconds_part_000 e =
     resolveDurationSeconds_part_000 (env_string (DURATION e) ''1m'')"

definition rampSeconds_part_000 :: "env \<Rightarrow> number" where
  "rampSeconds_part_000 e =
     math_max (Num 1) (math_round (divide_const (durationSeconds_part_000 e) 10))"

definition cloudProjectId_part_000 :: "env \<Rightarrow> number" where
  "cloudProjectId_part_000 e = env_number (CLOUD_PROJECT_ID e) 6019612"

definition options_part_000 :: "env \<Rightarrow> k6_options" where
  "options_part_000 e =
     \<lparr> stages =
         [\<lparr> duration = rampSeconds_part_000 e, target = virtualUsers_part_000 e \<rparr>,
          \<lparr> duration = durationSeconds_part_000 e, target = virtualUsers_part_000 e \<rparr>,
          \<lparr> duration = rampSeconds_part_000 e, target = Num 0 \<rparr>],
       cloud_projectID = cloudProjectId_part_000 e,
       thresholds =
         [(''http_req_duration'', [''p(90)<1200'', ''p(95)<1500'']),
          (''checks'', [''rate>=0.99''])] \<rparr>"

section \<open>The runtime of one iteration\<close>

subsection \<open>Values, errors and property access\<close>

text \<open>What \<^verbatim>\<open>res.json()\<close> can return, and \<^verbatim>\<open>undefined\<close>. The pairs of an
  object are in the order of its keys; a key is looked up from the front.\<close>

datatype jsval =
    JUndefined
  | JNull
  | JBool bool
  | JNum number
  | JStr string
  | JArr "jsval list"
  | JObj "(string \<times> jsval) list"

text \<open>
  The exceptions an iteration can end with: reading an identifier that nothing declares,
  reading a property of \<^verbatim>\<open>null\<close> or \<^verbatim>\<open>undefined\<close>, and the error k6 throws
  from \<^verbatim>\<open>json()\<close> on a response whose body is missing or is no JSON text.
\<close>

datatype error = ReferenceError string | TypeError string | JsonError

text \<open>Sequencing of computations that can throw.\<close>

definition attempt :: "error + 'a \<Rightarrow> ('a \<Rightarrow> error + 'b) \<Rightarrow> error + 'b" where
  "attempt m f = (case m of Inl e \<Rightarrow> Inl e | Inr a \<Rightarrow> f a)"

text \<open>\<^verbatim>\<open>v.p\<close> for the property names the scripts read (\<^verbatim>\<open>username\<close>,
  \<^verbatim>\<open>access\<close>, \<^verbatim>\<open>id\<close>, \<^verbatim>\<open>name\<close>, \<^verbatim>\<open>sex\<close>, \<^verbatim>\<open>length\<close>): only
  \<^verbatim>\<open>length\<close> is a property that arrays and strings have of their own.\<close>

fun get_prop :: "jsval \<Rightarrow> string \<Rightarrow> error + jsval" where
  "get_prop JUndefined p = Inl (TypeError p)"
| "get_prop JNull p = Inl (TypeError p)"
| "get_prop (JObj kvs) p = Inr (case map_of kvs p of None \<Rightarrow> JUndefined | Some v \<Rightarrow> v)"
| "get_prop (JArr xs) p =
     Inr (if p = ''length'' then JNum (Num (of_nat (length xs))) else JUndefined)"
| "get_prop (JStr s) p =
     Inr (if p = ''length'' then JNum (Num (of_nat (length s))) else JUndefined)"
| "get_prop v p = Inr JUndefined"

text \<open>\<^verbatim>\<open>!!v\<close>.\<close>

fun truthy :: "jsval \<Rightarrow> bool" where
  "truthy JUndefined = False"
| "truthy JNull = False"
| "truthy (JBool b) = b"
| "truthy (JNum n) = number_truthy n"
| "truthy (JStr s) = (s \<noteq> [])"
| "truthy v = True"

text \<open>\<^verbatim>\<open>a === b\<close>. Two values that \<^verbatim>\<open>json()\<close> built are the same array or object
  only when they are one reference; the scripts compare values of different responses,
  or a response's value with a literal, so arrays and objects never compare equal.\<close>

fun strict_eq :: "jsval \<Rightarrow> jsval \<Rightarrow> bool" where
  "strict_eq JUndefined JUndefined = True"
| "strict_eq JNull JNull = True"
| "strict_eq (JBool a) (JBool b) = (a = b)"
| "strict_eq (JNum a) (JNum b) = (a = b \<and> a \<noteq> NaN)"
| "strict_eq (JStr a) (JStr b) = (a = b)"
| "strict_eq a b = False"

text \<open>\<^verbatim>\<open>Array.isArray\<close>.\<close>

fun isArray :: "jsval \<Rightarrow> bool" where
  "isArray (JArr xs) = True"
| "isArray v = False"

subsection \<open>Requests, responses and the recorded events\<close>

datatype http_method = GET | POST | PUT | PATCH | DELETE

text \<open>A URL is a string, or the template \<^verbatim>\<open>`${endpoints.crocodiles}${id}/`\<close>, kept
  with the value of \<^verbatim>\<open>id\<close> that it prints.\<close>

datatype url = Url string | DetailUrl string jsval

text \<open>The two headers of the scripts; \<^verbatim>\<open>'Bearer ' + accessToken\<close> is kept with
  the value of the token.\<close>

datatype header = ContentTypeJson | AuthorizationBearer jsval

text \<open>A request: the body is the value given to \<^verbatim>\<open>JSON.stringify\<close> (\<open>None\<close> for
  no body or \<^verbatim>\<open>null\<close>), the tag is \<^verbatim>\<open>tags.name\<close>.\<close>

record request =
  req_method :: http_method
  req_url :: url
  req_body :: "jsval option"
  req_headers :: "header list"
  req_tag :: "string option"

text \<open>A response as the scripts read it: its status, and what \<^verbatim>\<open>json()\<close> gives,
  \<open>None\<close> when \<^verbatim>\<open>json()\<close> throws.\<close>

record response =
  status :: int
  json :: "jsval option"

definition res_json :: "response \<Rightarrow> error + jsval" where
  "res_json r = (case json r of None \<Rightarrow> Inl JsonError | Some v \<Rightarrow> Inr v)"

datatype event =
    Log string
  | Http request response
  | Check string bool
  | Sleep nat

text \<open>How a function of the script ends: by reaching its end, by a \<^verbatim>\<open>return\<close>
  statement, by an exception, or by \<^verbatim>\<open>exec.test.abort\<close>.\<close>

datatype outcome = Finished | Returned | Threw error | Aborted string

text \<open>A statement sequence records events and either stops with an outcome or goes on
  with a value.\<close>

type_synonym 'a run = "event list \<times> (outcome + 'a)"

definition and_then :: "'a run \<Rightarrow> ('a \<Rightarrow> 'b run) \<Rightarrow> 'b run" where
  "and_then m f =
     (case m of
        (es, Inl out) \<Rightarrow> (es, Inl out)
      | (es, Inr a) \<Rightarrow> (case f a of (es', r) \<Rightarrow> (es @ es', r)))"

definition pure :: "'a \<Rightarrow> 'a run" where
  "pure a = ([], Inr a)"

definition stop :: "outcome \<Rightarrow> 'a run" where
  "stop out = ([], Inl out)"

text \<open>An expression evaluated as a statement: its exception ends the function.\<close>

definition statement :: "error + 'a \<Rightarrow> 'a run" where
  "statement m = (case m of Inl e \<Rightarrow> stop (Threw e) | Inr a \<Rightarrow> pure a)"

definition finish :: "unit run \<Rightarrow> event list \<times> outcome" where
  "finish m = (case m of (es, Inl out) \<Rightarrow> (es, out) | (es, Inr u) \<Rightarrow> (es, Finished))"

text \<open>\<^verbatim>\<open>http.get\<close>, \<^verbatim>\<open>http.post\<close>, \<^verbatim>\<open>http.put\<close>, \<^verbatim>\<open>http.patch\<close> and
  \<^verbatim>\<open>http.del\<close>: the network answers a request with a response. Within one iteration
  no request is sent twice, so a function from requests to responses describes every
  server.\<close>

definition http_send :: "(request \<Rightarrow> response) \<Rightarrow> request \<Rightarrow> response run" where
  "http_send net rq = ([Http rq (net rq)], Inr (net rq))"

definition sleep :: "nat \<Rightarrow> unit run" where
  "sleep n = ([Sleep n], Inr ())"

definition console_log :: "string \<Rightarrow> unit run" where
  "console_log s = ([Log s], Inr ())"

text \<open>
  k6's \<^verbatim>\<open>check(val, sets)\<close>: the checks are evaluated in the order of the keys and
  each result is recorded under its name. A check whose function throws is recorded as
  failed; the exception is then thrown from \<^verbatim>\<open>check\<close>, and the checks after it are
  not evaluated. The scripts never use the value \<^verbatim>\<open>check\<close> returns.
\<close>

fun check :: "(string \<times> (error + bool)) list \<Rightarrow> unit run" where
  "check [] = ([], Inr ())"
| "check ((name, Inr b) # cs) = (case check cs of (es, r) \<Rightarrow> (Check name b # es, r))"
| "check ((name, Inl e) # cs) = ([Check name False], Inl (Threw e))"

text \<open>The random draws of one iteration: the two results of \<^verbatim>\<open>randomString(10)\<close>
  and, for the \<open>k\<close>-th call of \<^verbatim>\<open>sleep(randomIntBetween(0, 5))\<close>, the number
  drawn.\<close>

record draws =
  rnd_username :: string
  rnd_password :: string
  rnd_pause :: "nat \<Rightarrow> nat"

text \<open>Reading an identifier: a \<^verbatim>\<open>ReferenceError\<close> unless a declaration in scope
  binds it, and the value \<open>v\<close> it is bound to otherwise.\<close>

definition read_identifier :: "string list \<Rightarrow> string \<Rightarrow> jsval \<Rightarrow> error + jsval" where
  "read_identifier scope name v =
     (if name \<in> set scope then Inr v else Inl (ReferenceError name))"

section \<open>The journey of \<^verbatim>\<open>src/unnamed/part_000\<close>\<close>

text \<open>The constants at the head of the default function (lines 37 to 48); they are the
  same in both files.\<close>

definition username :: "draws \<Rightarrow> string" where
  "username d = ''test_'' @ rnd_username d"

definition password :: "draws \<Rightarrow> string" where
  "password d = ''secret_'' @ rnd_password d"

definition userCredentials :: "draws \<Rightarrow> jsval" where
  "userCredentials d =
     JObj [(''username'', JStr (username d)), (''password'', JStr (password d))]"

definition endpoint_register :: "string \<Rightarrow> string" where
  "endpoint_register base = base @ ''/user/register/''"

definition endpoint_login :: "string \<Rightarrow> string" where
  "endpoint_login base = base @ ''/auth/token/login/''"

definition endpoint_crocodiles :: "string \<Rightarrow> string" where
  "endpoint_crocodiles base = base @ ''/my/crocodiles/''"

definition jsonHeaders :: "header list" where
  "jsonHeaders = [ContentTypeJson]"

definition authHeaders :: "jsval \<Rightarrow> header list" where
  "authHeaders accessToken = [AuthorizationBearer accessToken]"

definition authJsonHeaders :: "jsval \<Rightarrow> header list" where
  "authJsonHeaders accessToken = [AuthorizationBearer accessToken, ContentTypeJson]"

text \<open>The requests of the eight steps and of \<^verbatim>\<open>setup\<close>, as the calls of
  \<^verbatim>\<open>http.post\<close>, \<^verbatim>\<open>http.get\<close>, \<^verbatim>\<open>http.put\<close>, \<^verbatim>\<open>http.patch\<close> and
  \<^verbatim>\<open>http.del\<close> build them; both files build the same ones.\<close>

definition availability_request :: "string \<Rightarrow> request" where
  "availability_request base =
     \<lparr> req_method = GET, req_url = Url base, req_body = None, req_headers = [],
       req_tag = None \<rparr>"

definition register_request :: "string \<Rightarrow> draws \<Rightarrow> request" where
  "register_request base d =
     \<lparr> req_method = POST, req_url = Url (endpoint_register base),
       req_body = Some (userCredentials d), req_headers = jsonHeaders,
       req_tag = Some ''RegisterUser'' \<rparr>"

definition login_request :: "string \<Rightarrow> draws \<Rightarrow> request" where
  "login_request base d =
     \<lparr> req_method = POST, req_url = Url (endpoint_login base),
       req_body = Some (userCredentials d), req_headers = jsonHeaders,
       req_tag = Some ''LoginUser'' \<rparr>"

definition list_request :: "string \<Rightarrow> jsval \<Rightarrow> request" where
  "list_request base accessToken =
     \<lparr> req_method = GET, req_url = Url (endpoint_crocodiles base),
       req_body = None, req_headers = authHeaders accessToken,
       req_tag = Some ''GetMyCrocodiles'' \<rparr>"

definition create_request :: "string \<Rightarrow> jsval \<Rightarrow> request" where
  "create_request base accessToken =
     \<lparr> req_method = POST, req_url = Url (endpoint_crocodiles base),
       req_body = Some (JObj [(''name'', JStr ''Oleh''), (''sex'', JStr ''M''),
                              (''date_of_birth'', JStr ''2010-05-15'')]),
       req_headers = authJsonHeaders accessToken,
       req_tag = Some ''AddCrocodile'' \<rparr>"

definition detail_request :: "string \<Rightarrow> jsval \<Rightarrow> jsval \<Rightarrow> request" where
  "detail_request base accessToken newCrocodileId =
     \<lparr> req_method = GET,
       req_url = DetailUrl (endpoint_crocodiles base) newCrocodileId,
       req_body = None, req_headers = authHeaders accessToken,
       req_tag = Some ''GetCrocodile'' \<rparr>"

definition put_request :: "string \<Rightarrow> jsval \<Rightarrow> jsval \<Rightarrow> request" where
  "put_request base accessToken newCrocodileId =
     \<lparr> req_method = PUT,
       req_url = DetailUrl (endpoint_crocodiles base) newCrocodileId,
       req_body = Some (JObj [(''name'', JStr ''Anzhella''), (''sex'', JStr ''M''),
                              (''date_of_birth'', JStr ''1900-10-28'')]),
       req_headers = authJsonHeaders accessToken,
       req_tag = Some ''PutCrocodile'' \<rparr>"

definition patch_request :: "string \<Rightarrow> jsval \<Rightarrow> jsval \<Rightarrow> request" where
  "patch_request base accessToken newCrocodileId =
     \<lparr> req_method = PATCH,
       req_url = DetailUrl (endpoint_crocodiles base) newCrocodileId,
       req_body = Some (JObj [(''sex'', JStr ''F'')]),
       req_headers = authJsonHeaders accessToken,
       req_tag = Some ''PatchCrocodile'' \<rparr>"

definition delete_request :: "string \<Rightarrow> jsval \<Rightarrow> jsval \<Rightarrow> request" where
  "delete_request base accessToken newCrocodileId =
     \<lparr> req_method = DELETE,
       req_url = DetailUrl (endpoint_crocodiles base) newCrocodileId,
       req_body = None, req_headers = authHeaders accessToken,
       req_tag = Some ''DeleteCrocodile'' \<rparr>"

text \<open>Every identifier that \<^verbatim>\<open>src/unnamed/part_000\<close> declares: its imports, its
  module-level constants and functions, and the variables of the default function.\<close>

definition identifiers_part_000 :: "string list" where
  "identifiers_part_000 =
     [''http'', ''randomIntBetween'', ''randomString'', ''check'', ''sleep'', ''exec'',
      ''baseUrl'', ''virtualUsers'', ''durationSeconds'', ''rampSeconds'',
      ''cloudProjectId'', ''options'', ''setup'', ''teardown'', ''resolveDurationSeconds'',
      ''userCredentials'', ''endpoints'', ''jsonHeaders'', ''registerStep'', ''res'',
      ''registerBody'', ''loginStep'', ''response'', ''accessToken'', ''authHeaders'',
      ''authJsonHeaders'', ''listStep'', ''listBody'', ''createStep'', ''newCrocodileId'',
      ''detailStep'', ''detailBody'', ''putStep'', ''putBody'', ''patchStep'',
      ''patchBody'', ''deleteStep'']"

text \<open>Step 1, lines 50 to 68.\<close>

definition RegisterUser_part_000 ::
  "string \<Rightarrow> (request \<Rightarrow> response) \<Rightarrow> draws \<Rightarrow> unit run" where
  "RegisterUser_part_000 base net d =
     and_then (http_send net (register_request base d)) (\<lambda>res.
     and_then (statement (if status res = 201 then res_json res else Inr (JObj [])))
       (\<lambda>registerBody.
     and_then (check
        [(''RegisterUser | status 201'', Inr (status res = 201)),
         (''RegisterUser | username matches'',
            attempt (get_prop registerBody ''username'')
              (\<lambda>u. Inr (strict_eq u (JStr (username d)))))]) (\<lambda>_.
     sleep (rnd_pause d 0))))"

text \<open>Step 2, lines 70 to 92: the step returns the access token, or ends the
  iteration.\<close>

definition LoginUser_part_000 ::
  "string \<Rightarrow> (request \<Rightarrow> response) \<Rightarrow> draws \<Rightarrow> jsval run" where
  "LoginUser_part_000 base net d =
     and_then (http_send net (login_request base d)) (\<lambda>response.
     and_then (statement
        (if status response = 200
         then attempt (res_json response) (\<lambda>j. get_prop j ''access'')
         else Inr (JStr []))) (\<lambda>accessToken.
     and_then (check
        [(''LoginUser | status 200'', Inr (status response = 200)),
         (''LoginUser | token received'', Inr (truthy accessToken))]) (\<lambda>_.
     if \<not> truthy accessToken then stop Returned
     else and_then (sleep (rnd_pause d 1)) (\<lambda>_. pure accessToken))))"

text \<open>Step 3, lines 97 to 114.\<close>

definition GetMyCrocodiles_part_000 ::
  "string \<Rightarrow> (request \<Rightarrow> response) \<Rightarrow> draws \<Rightarrow> jsval \<Rightarrow> unit run" where
  "GetMyCrocodiles_part_000 base net d accessToken =
     and_then (http_send net (list_request base accessToken)) (\<lambda>res.
     and_then (statement (if status res = 200 then res_json res else Inr (JArr [])))
       (\<lambda>listBody.
     and_then (check
        [(''GetMyCrocodiles | status 200'', Inr (status res = 200)),
         (''GetMyCrocodiles | empty list'',
            if isArray listBody
            then attempt (get_prop listBody ''length'')
                   (\<lambda>l. Inr (strict_eq l (JNum (Num 0))))
            else Inr False)]) (\<lambda>_.
     sleep (rnd_pause d 2))))"

text \<open>Step 4, lines 116 to 138: the step returns the id of the new crocodile, or ends the
  iteration. \<open>bound\<close> is the value that the declaration of \<^verbatim>\<open>newCrocodileId\<close>
  holds after line 127.\<close>

definition AddCrocodile_part_000 ::
  "string \<Rightarrow> (request \<Rightarrow> response) \<Rightarrow> draws \<Rightarrow> jsval \<Rightarrow> jsval run" where
  "AddCrocodile_part_000 base net d accessToken =
     and_then (http_send net (create_request base accessToken)) (\<lambda>res.
     and_then (statement
        (if status res = 201 then attempt (res_json res) (\<lambda>j. get_prop j ''id'')
         else Inr JNull)) (\<lambda>bound.
     and_then (check
        [(''AddCrocodile | status 201'', Inr (status res = 201)),
         (''AddCrocodile | id issued'',
            attempt (read_identifier identifiers_part_000 ''newCrocodileId'' bound)
              (\<lambda>newCrocodileId. Inr (\<not> strict_eq newCrocodileId JNull)))]) (\<lambda>_.
     and_then (statement (read_identifier identifiers_part_000 ''newCrocodileId'' bound))
       (\<lambda>newCrocodileId.
     if strict_eq newCrocodileId JNull then stop Returned
     else and_then (sleep (rnd_pause d 3)) (\<lambda>_. pure newCrocodileId)))))"

text \<open>Step 5, lines 140 to 157.\<close>

definition GetCrocodile_part_000 ::
  "string \<Rightarrow> (request \<Rightarrow> response) \<Rightarrow> draws \<Rightarrow> jsval \<Rightarrow> jsval \<Rightarrow> unit run" where
  "GetCrocodile_part_000 base net d accessToken bound =
     and_then (statement (read_identifier identifiers_part_000 ''newCrocodileId'' bound))
       (\<lambda>newCrocodileId.
     and_then (http_send net (detail_request base accessToken newCrocodileId)) (\<lambda>res.
     and_then (statement (if status res = 200 then res_json res else Inr (JObj [])))
       (\<lambda>detailBody.
     and_then (check
        [(''GetCrocodile | status 200'', Inr (status res = 200)),
         (''GetCrocodile | correct id'',
            attempt (get_prop detailBody ''id'') (\<lambda>i.
            attempt (read_identifier identifiers_part_000 ''newCrocodileId'' bound)
              (\<lambda>n. Inr (strict_eq i n))))]) (\<lambda>_.
     sleep (rnd_pause d 4)))))"

text \<open>Step 6, lines 159 to 177.\<close>

definition PutCrocodile_part_000 ::
  "string \<Rightarrow> (request \<Rightarrow> response) \<Rightarrow> draws \<Rightarrow> jsval \<Rightarrow> jsval \<Rightarrow> unit run" where
  "PutCrocodile_part_000 base net d accessToken bound =
     and_then (statement (read_identifier identifiers_part_000 ''newCrocodileId'' bound))
       (\<lambda>newCrocodileId.
     and_then (http_send net (put_request base accessToken newCrocodileId)) (\<lambda>res.
     and_then (statement (if status res = 200 then res_json res else Inr (JObj [])))
       (\<lambda>putBody.
     and_then (check
        [(''PutCrocodile | status 200'', Inr (status res = 200)),
         (''PutCrocodile | name updated'',
            attempt (get_prop putBody ''name'')
              (\<lambda>n. Inr (strict_eq n (JStr ''Anzhella''))))]) (\<lambda>_.
     sleep (rnd_pause d 5)))))"

text \<open>Step 7, lines 179 to 197.\<close>

definition PatchCrocodile_part_000 ::
  "string \<Rightarrow> (request \<Rightarrow> response) \<Rightarrow> draws \<Rightarrow> jsval \<Rightarrow> jsval \<Rightarrow> unit run" where
  "PatchCrocodile_part_000 base net d accessToken bound =
     and_then (statement (read_identifier identifiers_part_000 ''newCrocodileId'' bound))
       (\<lambda>newCrocodileId.
     and_then (http_send net (patch_request base accessToken newCrocodileId)) (\<lambda>res.
     and_then (statement (if status res = 200 then res_json res else Inr (JObj [])))
       (\<lambda>patchBody.
     and_then (check
        [(''PatchCrocodile | status 200'', Inr (status res = 200)),
         (''PatchCrocodile | gender updated'',
            attempt (get_prop patchBody ''sex'')
              (\<lambda>x. Inr (strict_eq x (JStr ''F''))))]) (\<lambda>_.
     sleep (rnd_pause d 6)))))"

text \<open>Step 8, lines 199 to 211.\<close>

definition DeleteCrocodile_part_000 ::
  "string \<Rightarrow> (request \<Rightarrow> response) \<Rightarrow> draws \<Rightarrow> jsval \<Rightarrow> jsval \<Rightarrow> unit run" where
  "DeleteCrocodile_part_000 base net d accessToken bound =
     and_then (statement (read_identifier identifiers_part_000 ''newCrocodileId'' bound))
       (\<lambda>newCrocodileId.
     and_then (http_send net (delete_request base accessToken newCrocodileId)) (\<lambda>res.
     and_then (check
        [(''DeleteCrocodile | status 204/200'',
            Inr (status res = 204 \<or> status res = 200))]) (\<lambda>_.
     sleep (rnd_pause d 7))))"

text \<open>The default function of \<^verbatim>\<open>src/unnamed/part_000\<close>: one iteration, given the
  base URL, the network and the random draws. It yields the events in their order and
  the way the iteration ended.\<close>

definition default_part_000 ::
  "string \<Rightarrow> (request \<Rightarrow> response) \<Rightarrow> draws \<Rightarrow> event list \<times> outcome" where
  "default_part_000 base net d =
     finish
       (and_then (RegisterUser_part_000 base net d) (\<lambda>_.
        and_then (LoginUser_part_000 base net d) (\<lambda>accessToken.
        and_then (GetMyCrocodiles_part_000 base net d accessToken) (\<lambda>_.
        and_then (AddCrocodile_part_000 base net d accessToken) (\<lambda>newCrocodileId.
        and_then (GetCrocodile_part_000 base net d accessToken newCrocodileId) (\<lambda>_.
        and_then (PutCrocodile_part_000 base net d accessToken newCrocodileId) (\<lambda>_.
        and_then (PatchCrocodile_part_000 base net d accessToken newCrocodileId) (\<lambda>_.
        DeleteCrocodile_part_000 base net d accessToken newCrocodileId))))))))"

section \<open>The journey of \<^verbatim>\<open>src/fulle2etest.js\<close>\<close>

text \<open>Every identifier that \<^verbatim>\<open>src/fulle2etest.js\<close> declares: its imports, its
  module-level constants and functions, and the variables of the default function.\<close>

definition identifiers_fulle2etest :: "string list" where
  "identifiers_fulle2etest =
     [''http'', ''randomIntBetween'', ''randomString'', ''check'', ''sleep'', ''exec'',
      ''baseUrl'', ''virtualUsers'', ''durationSeconds'', ''rampSeconds'',
      ''cloudProjectId'', ''options'', ''setup'', ''teardown'', ''resolveDurationSeconds'',
      ''userCredentials'', ''endpoints'', ''jsonHeaders'', ''registerStep'', ''res'',
      ''loginStep'', ''response'', ''accessToken'', ''authHeaders'', ''authJsonHeaders'',
      ''listStep'', ''createStep'', ''detailStep'', ''putStep'', ''patchStep'',
      ''deleteStep'']"

text \<open>\<^verbatim>\<open>r.json().p\<close>, as the checks of this file evaluate it.\<close>

definition body_prop :: "response \<Rightarrow> string \<Rightarrow> error + jsval" where
  "body_prop r p = attempt (res_json r) (\<lambda>j. get_prop j p)"

text \<open>Step 1, lines 50 to 63.\<close>

definition RegisterUser_fulle2etest ::
  "string \<Rightarrow> (request \<Rightarrow> response) \<Rightarrow> draws \<Rightarrow> unit run" where
  "RegisterUser_fulle2etest base net d =
     and_then (http_send net (register_request base d)) (\<lambda>res.
     and_then (check
        [(''RegisterUser | status 201'', Inr (status res = 201)),
         (''RegisterUser | username matches'',
            attempt (body_prop res ''username'')
              (\<lambda>u. Inr (strict_eq u (JStr (username d)))))]) (\<lambda>_.
     sleep (rnd_pause d 0)))"

text \<open>Step 2, lines 65 to 87.\<close>

definition LoginUser_fulle2etest ::
  "string \<Rightarrow> (request \<Rightarrow> response) \<Rightarrow> draws \<Rightarrow> jsval run" where
  "LoginUser_fulle2etest base net d =
     and_then (http_send net (login_request base d)) (\<lambda>response.
     and_then (statement
        (if status response = 200
         then attempt (res_json response) (\<lambda>j. get_prop j ''access'')
         else Inr (JStr []))) (\<lambda>accessToken.
     and_then (check
        [(''LoginUser | status 200'', Inr (status response = 200)),
         (''LoginUser | token received'', Inr (truthy accessToken))]) (\<lambda>_.
     if \<not> truthy accessToken then stop Returned
     else and_then (sleep (rnd_pause d 1)) (\<lambda>_. pure accessToken))))"

text \<open>Step 3, lines 92 to 104.\<close>

definition GetMyCrocodiles_fulle2etest ::
  "string \<Rightarrow> (request \<Rightarrow> response) \<Rightarrow> draws \<Rightarrow> jsval \<Rightarrow> unit run" where
  "GetMyCrocodiles_fulle2etest base net d accessToken =
     and_then (http_send net (list_request base accessToken)) (\<lambda>res.
     and_then (check
        [(''GetMyCrocodiles | status 200'', Inr (status res = 200)),
         (''GetMyCrocodiles | empty list'',
            attempt (body_prop res ''length'')
              (\<lambda>l. Inr (strict_eq l (JNum (Num 0)))))]) (\<lambda>_.
     sleep (rnd_pause d 2)))"

text \<open>Step 4, lines 106 to 123. Line 119 reads \<^verbatim>\<open>newCrocodileId\<close>; no declaration
  of this file gives it a value, which \<^verbatim>\<open>undefined\<close> stands for below.\<close>

definition AddCrocodile_fulle2etest ::
  "string \<Rightarrow> (request \<Rightarrow> response) \<Rightarrow> draws \<Rightarrow> jsval \<Rightarrow> unit run" where
  "AddCrocodile_fulle2etest base net d accessToken =
     and_then (http_send net (create_request base accessToken)) (\<lambda>res.
     and_then (check
        [(''AddCrocodile | status 201'', Inr (status res = 201)),
         (''AddCrocodile | id issued'',
            attempt (body_prop res ''id'') (\<lambda>i. Inr (\<not> strict_eq i JNull)))]) (\<lambda>_.
     and_then (statement
        (read_identifier identifiers_fulle2etest ''newCrocodileId'' JUndefined))
       (\<lambda>newCrocodileId.
     if strict_eq newCrocodileId JNull then stop Returned
     else sleep (rnd_pause d 3))))"

text \<open>Step 5, lines 125 to 137.\<close>

definition GetCrocodile_fulle2etest ::
  "string \<Rightarrow> (request \<Rightarrow> response) \<Rightarrow> draws \<Rightarrow> jsval \<Rightarrow> unit run" where
  "GetCrocodile_fulle2etest base net d accessToken =
     and_then (statement
        (read_identifier identifiers_fulle2etest ''newCrocodileId'' JUndefined))
       (\<lambda>newCrocodileId.
     and_then (http_send net (detail_request base accessToken newCrocodileId)) (\<lambda>res.
     and_then (check
        [(''GetCrocodile | status 200'', Inr (status res = 200)),
         (''GetCrocodile | correct id'',
            attempt (body_prop res ''id'') (\<lambda>i.
            attempt (read_identifier identifiers_fulle2etest ''newCrocodileId'' JUndefined)
              (\<lambda>n. Inr (strict_eq i n))))]) (\<lambda>_.
     sleep (rnd_pause d 4))))"

text \<open>Step 6, lines 139 to 152.\<close>

definition PutCrocodile_fulle2etest ::
  "string \<Rightarrow> (request \<Rightarrow> response) \<Rightarrow> draws \<Rightarrow> jsval \<Rightarrow> unit run" where
  "PutCrocodile_fulle2etest base net d accessToken =
     and_then (statement
        (read_identifier identifiers_fulle2etest ''newCrocodileId'' JUndefined))
       (\<lambda>newCrocodileId.
     and_then (http_send net (put_request base accessToken newCrocodileId)) (\<lambda>res.
     and_then (check
        [(''PutCrocodile | status 200'', Inr (status res = 200)),
         (''PutCrocodile | name updated'',
            attempt (body_prop res ''name'')
              (\<lambda>n. Inr (strict_eq n (JStr ''Anzhella''))))]) (\<lambda>_.
     sleep (rnd_pause d 5))))"

text \<open>Step 7, lines 154 to 167.\<close>

definition PatchCrocodile_fulle2etest ::
  "string \<Rightarrow> (request \<Rightarrow> response) \<Rightarrow> draws \<Rightarrow> jsval \<Rightarrow> unit run" where
  "PatchCrocodile_fulle2etest base net d accessToken =
     and_then (statement
        (read_identifier identifiers_fulle2etest ''newCrocodileId'' JUndefined))
       (\<lambda>newCrocodileId.
     and_then (http_send net (patch_request base accessToken newCrocodileId)) (\<lambda>res.
     and_then (check
        [(''PatchCrocodile | status 200'', Inr (status res = 200)),
         (''PatchCrocodile | gender updated'',
            attempt (body_prop res ''sex'')
              (\<lambda>x. Inr (strict_eq x (JStr ''F''))))]) (\<lambda>_.
     sleep (rnd_pause d 6))))"

text \<open>Step 8, lines 169 to 181.\<close>

definition DeleteCrocodile_fulle2etest ::
  "string \<Rightarrow> (request \<Rightarrow> response) \<Rightarrow> draws \<Rightarrow> jsval \<Rightarrow> unit run" where
  "DeleteCrocodile_fulle2etest base net d accessToken =
     and_then (statement
        (read_identifier identifiers_fulle2etest ''newCrocodileId'' JUndefined))
       (\<lambda>newCrocodileId.
     and_then (http_send net (delete_request base accessToken newCrocodileId)) (\<lambda>res.
     and_then (check
        [(''DeleteCrocodile | status 204/200'',
            Inr (status res = 204 \<or> status res = 200))]) (\<lambda>_.
     sleep (rnd_pause d 7))))"

text \<open>The default function of \<^verbatim>\<open>src/fulle2etest.js\<close>.\<close>

definition default_fulle2etest ::
  "string \<Rightarrow> (request \<Rightarrow> response) \<Rightarrow> draws \<Rightarrow> event list \<times> outcome" where
  "default_fulle2etest base net d =
     finish
       (and_then (RegisterUser_fulle2etest base net d) (\<lambda>_.
        and_then (LoginUser_fulle2etest base net d) (\<lambda>accessToken.
        and_then (GetMyCrocodiles_fulle2etest base net d accessToken) (\<lambda>_.
        and_then (AddCrocodile_fulle2etest base net d accessToken) (\<lambda>_.
        and_then (GetCrocodile_fulle2etest base net d accessToken) (\<lambda>_.
        and_then (PutCrocodile_fulle2etest base net d accessToken) (\<lambda>_.
        and_then (PatchCrocodile_fulle2etest base net d accessToken) (\<lambda>_.
        DeleteCrocodile_fulle2etest base net d accessToken))))))))"

section \<open>Setup and the test run\<close>

text \<open>\<^verbatim>\<open>setup()\<close>, lines 27 to 34 of both files: \<^verbatim>\<open>exec.test.abort\<close> ends the
  function at once.\<close>

definition setup_fulle2etest :: "string \<Rightarrow> (request \<Rightarrow> response) \<Rightarrow> event list \<times> outcome" where
  "setup_fulle2etest base net =
     finish
       (and_then (console_log ''Checking if service is available...'') (\<lambda>_.
        and_then (http_send net (availability_request base)) (\<lambda>res.
        and_then (if status res \<noteq> 200 then stop (Aborted ''Service is not available'')
                  else pure ()) (\<lambda>_.
        console_log ''Service is available''))))"

definition setup_part_000 :: "string \<Rightarrow> (request \<Rightarrow> response) \<Rightarrow> event list \<times> outcome" where
  "setup_part_000 base net =
     finish
       (and_then (console_log ''Checking if service is available...'') (\<lambda>_.
        and_then (http_send net (availability_request base)) (\<lambda>res.
        and_then (if status res \<noteq> 200 then stop (Aborted ''Service is not available'')
                  else pure ()) (\<lambda>_.
        console_log ''Service is available''))))"

text \<open>
  The test run is k6's: it calls \<^verbatim>\<open>setup\<close> once, and then the default function
  once per iteration of each virtual user; a run that \<^verbatim>\<open>setup\<close> aborts starts no
  iteration. The iterations are given by the network and the draws that each of them
  meets; virtual users share no state, so their interleaving is left out. The result is
  what \<^verbatim>\<open>setup\<close> did and what each iteration that ran did;
  \<^verbatim>\<open>teardown\<close>, which writes one line to the log, is left out.
\<close>

definition run_of ::
  "(event list \<times> outcome) \<Rightarrow> ('i \<Rightarrow> event list \<times> outcome) \<Rightarrow> 'i list
     \<Rightarrow> (event list \<times> outcome) \<times> (event list \<times> outcome) list" where
  "run_of s iteration its =
     (case snd s of
        Aborted msg \<Rightarrow> (s, [])
      | _ \<Rightarrow> (s, map iteration its))"

definition test_run_fulle2etest ::
  "string \<Rightarrow> (request \<Rightarrow> response) \<Rightarrow> ((request \<Rightarrow> response) \<times> draws) list
     \<Rightarrow> (event list \<times> outcome) \<times> (event list \<times> outcome) list" where
  "test_run_fulle2etest base net its =
     run_of (setup_fulle2etest base net) (\<lambda>(n, d). default_fulle2etest base n d) its"

definition test_run_part_000 ::
  "string \<Rightarrow> (request \<Rightarrow> response) \<Rightarrow> ((request \<Rightarrow> response) \<times> draws) list
     \<Rightarrow> (event list \<times> outcome) \<times> (event list \<times> outcome) list" where
  "test_run_part_000 base net its =
     run_of (setup_part_000 base net) (\<lambda>(n, d). default_part_000 base n d) its"

section \<open>Reading a trace\<close>

text \<open>The steps whose request an iteration sent, by their tags and in order.\<close>

fun requested :: "event list \<Rightarrow> string list" where
  "requested [] = []"
| "requested (Http rq rs # es) =
     (case req_tag rq of None \<Rightarrow> requested es | Some t \<Rightarrow> t # requested es)"
| "requested (e # es) = requested es"

text \<open>The names of the checks an iteration recorded, in order.\<close>

fun recorded :: "event list \<Rightarrow> string list" where
  "recorded [] = []"
| "recorded (Check name b # es) = name # recorded es"
| "recorded (e # es) = recorded es"

text \<open>The requests whose URL is built from an id (the detail path).\<close>

fun detail_requests :: "event list \<Rightarrow> request list" where
  "detail_requests [] = []"
| "detail_requests (Http rq rs # es) =
     (case req_url rq of
        DetailUrl c v \<Rightarrow> rq # detail_requests es
      | Url u \<Rightarrow> detail_requests es)"
| "detail_requests (e # es) = detail_requests es"

text \<open>The response that the request of a step received, if the step was reached.\<close>

fun response_of :: "string \<Rightarrow> event list \<Rightarrow> response option" where
  "response_of t [] = None"
| "response_of t (Http rq rs # es) =
     (if req_tag rq = Some t then Some rs else response_of t es)"
| "response_of t (e # es) = response_of t es"

text \<open>The events that follow the request of a step.\<close>

fun after_request :: "string \<Rightarrow> event list \<Rightarrow> event list" where
  "after_request t [] = []"
| "after_request t (Http rq rs # es) =
     (if req_tag rq = Some t then es else after_request t es)"
| "after_request t (e # es) = after_request t es"





text \<open>The tags of the eight steps, in order.\<close>

definition step_names :: "string list" where
  "step_names =
     [''RegisterUser'', ''LoginUser'', ''GetMyCrocodiles'', ''AddCrocodile'',
      ''GetCrocodile'', ''PutCrocodile'', ''PatchCrocodile'', ''DeleteCrocodile'']"


section \<open>Sample networks\<close>

text \<open>A server that answers every step as the scripts expect, for the user
  \<^verbatim>\<open>test_abcdefghij\<close>, and the draws of that iteration.\<close>

definition sample_draws :: draws where
  "sample_draws =
     \<lparr> rnd_username = ''abcdefghij'', rnd_password = ''klmnopqrst'',
       rnd_pause = (\<lambda>k. k mod 6) \<rparr>"

definition sample_server :: "request \<Rightarrow> response" where
  "sample_server rq =
     (if req_tag rq = Some ''RegisterUser''
      then \<lparr> status = 201, json = Some (JObj [(''username'', JStr ''test_abcdefghij'')]) \<rparr>
      else if req_tag rq = Some ''LoginUser''
      then \<lparr> status = 200, json = Some (JObj [(''access'', JStr ''token'')]) \<rparr>
      else if req_tag rq = Some ''GetMyCrocodiles''
      then \<lparr> status = 200, json = Some (JArr []) \<rparr>
      else if req_tag rq = Some ''AddCrocodile''
      then \<lparr> status = 201,
             json = Some (JObj [(''id'', JNum (Num 7)), (''name'', JStr ''Oleh''),
                                (''sex'', JStr ''M''),
                                (''date_of_birth'', JStr ''2010-05-15'')]) \<rparr>
      else if req_tag rq = Some ''GetCrocodile''
      then \<lparr> status = 200,
             json = Some (JObj [(''id'', JNum (Num 7)), (''name'', JStr ''Oleh'')]) \<rparr>
      else if req_tag rq = Some ''PutCrocodile''
      then \<lparr> status = 200,
             json = Some (JObj [(''id'', JNum (Num 7)), (''name'', JStr ''Anzhella'')]) \<rparr>
      else if req_tag rq = Some ''PatchCrocodile''
      then \<lparr> status = 200,
             json = Some (JObj [(''id'', JNum (Num 7)), (''sex'', JStr ''F'')]) \<rparr>
      else if req_tag rq = Some ''DeleteCrocodile''
      then \<lparr> status = 204, json = None \<rparr>
      else \<lparr> status = 200, json = None \<rparr>)"

text \<open>The network \<open>net\<close>, except that the step \<open>t\<close> receives the response \<open>r\<close>.\<close>

definition answering ::
  "string \<Rightarrow> response \<Rightarrow> (request \<Rightarrow> response) \<Rightarrow> request \<Rightarrow> response" where
  "answering t r net rq = (if req_tag rq = Some t then r else net rq)"

text \<open>A response with a status and a body that is no JSON text, such as an HTML error
  page, or no body at all.\<close>

definition no_json :: "int \<Rightarrow> response" where
  "no_json s = \<lparr> status = s, json = None \<rparr>"

section \<open>Properties of the configuration layer\<close>

lemma resolveDurationSeconds_part_000_eq:
  "resolveDurationSeconds_part_000 v = resolveDurationSeconds v"
  by (simp add: resolveDurationSeconds_part_000_def resolveDurationSeconds_def)

lemma durationSeconds_part_000_eq: "durationSeconds_part_000 e = durationSeconds e"
  by (simp add: durationSeconds_part_000_def durationSeconds_def
      resolveDurationSeconds_part_000_eq)

lemma rampSeconds_part_000_eq: "rampSeconds_part_000 e = rampSeconds e"
  by (simp add: rampSeconds_part_000_def rampSeconds_def durationSeconds_part_000_eq)



text \<open>
  C3. \<^verbatim>\<open>resolveDurationSeconds\<close> maps \<^verbatim>\<open>"2m"\<close> to 120, \<^verbatim>\<open>"90"\<close> to 90,
  \<^verbatim>\<open>"1h"\<close> to 3600 and the malformed \<^verbatim>\<open>"abc"\<close> to the fallback 60, in both
  files.
\<close>

theorem resolveDurationSeconds_examples:
  "resolveDurationSeconds ''2m'' = Num 120
   \<and> resolveDurationSeconds ''90'' = Num 90
   \<and> resolveDurationSeconds ''1h'' = Num 3600
   \<and> resolveDurationSeconds ''abc'' = Num 60
   \<and> resolveDurationSeconds_part_000 ''2m'' = Num 120
   \<and> resolveDurationSeconds_part_000 ''90'' = Num 90
   \<and> resolveDurationSeconds_part_000 ''1h'' = Num 3600
   \<and> resolveDurationSeconds_part_000 ''abc'' = Num 60"
  by code_simp





text \<open>
  C10. The configuration layers of the two files are the same function of the
  environment: \<^verbatim>\<open>resolveDurationSeconds\<close> returns the same result on every text, and
  the options (the three stages with their targets and durations, the project id and
  the thresholds) are equal.
\<close>

theorem configuration_layers_agree:
  "resolveDurationSeconds_part_000 v = resolveDurationSeconds v
   \<and> options_part_000 e = options e
   \<and> stages (options_part_000 e) = stages (options e)
   \<and> thresholds (options_part_000 e) = thresholds (options e)
   \<and> thresholds (options e) =
        [(''http_req_duration'', [''p(90)<1200'', ''p(95)<1500'']),
         (''checks'', [''rate>=0.99''])]"
  by (simp add: resolveDurationSeconds_part_000_eq options_part_000_def options_def
      rampSeconds_part_000_eq durationSeconds_part_000_eq virtualUsers_part_000_def
      virtualUsers_def cloudProjectId_part_000_def cloudProjectId_def)

section \<open>Lemmas on runs and traces\<close>

lemma fst_and_then:
  "fst (and_then m f) = fst m @ (case snd m of Inl out \<Rightarrow> [] | Inr a \<Rightarrow> fst (f a))"
  by (cases m) (auto simp: and_then_def split: sum.splits prod.splits)

lemma snd_and_then:
  "snd (and_then m f) = (case snd m of Inl out \<Rightarrow> Inl out | Inr a \<Rightarrow> snd (f a))"
  by (cases m) (auto simp: and_then_def split: sum.splits prod.splits)

lemma fst_finish: "fst (finish m) = fst m"
  by (cases m) (auto simp: finish_def split: sum.splits)

lemma snd_finish: "snd (finish m) = (case snd m of Inl out \<Rightarrow> out | Inr u \<Rightarrow> Finished)"
  by (cases m) (auto simp: finish_def split: sum.splits)

lemma requested_append: "requested (xs @ ys) = requested xs @ requested ys"
  by (induction xs rule: requested.induct) (auto split: option.splits)

lemma recorded_append: "recorded (xs @ ys) = recorded xs @ recorded ys"
  by (induction xs rule: recorded.induct) auto

lemma detail_requests_append:
  "detail_requests (xs @ ys) = detail_requests xs @ detail_requests ys"
  by (induction xs rule: detail_requests.induct) (auto split: url.splits)

lemma response_of_append:
  "response_of t (xs @ ys) =
     (case response_of t xs of None \<Rightarrow> response_of t ys | Some r \<Rightarrow> Some r)"
  by (induction t xs rule: response_of.induct) auto

lemma after_request_append:
  "after_request t (xs @ ys) =
     (case response_of t xs of
        None \<Rightarrow> after_request t ys
      | Some r \<Rightarrow> after_request t xs @ ys)"
  by (induction t xs rule: after_request.induct) (auto split: option.splits)

lemma declared_part_000:
  "read_identifier identifiers_part_000 ''newCrocodileId'' v = Inr v"
  by (simp add: read_identifier_def identifiers_part_000_def)

lemma undeclared_fulle2etest:
  "read_identifier identifiers_fulle2etest ''newCrocodileId'' v =
     Inl (ReferenceError ''newCrocodileId'')"
  by (simp add: read_identifier_def identifiers_fulle2etest_def)


lemmas run_defs =
  and_then_def http_send_def statement_def pure_def stop_def sleep_def console_log_def
  attempt_def res_json_def body_prop_def

lemmas traces_append =
  requested_append recorded_append detail_requests_append response_of_append
  after_request_append

lemmas run_parts = fst_and_then snd_and_then fst_finish snd_finish

lemma get_prop_error: "get_prop v p = Inl e \<Longrightarrow> e = TypeError p"
  by (cases v) (auto split: if_splits)

lemma get_prop_not_ReferenceError: "get_prop v p \<noteq> Inl (ReferenceError n)"
  by (cases v) auto

lemma RegisterUser_part_000_trace:
  "requested (fst (RegisterUser_part_000 base net d)) = [''RegisterUser'']"
  "detail_requests (fst (RegisterUser_part_000 base net d)) = []"
  "response_of t (fst (RegisterUser_part_000 base net d)) =
     (if t = ''RegisterUser'' then Some (net (register_request base d)) else None)"
  by (auto simp: RegisterUser_part_000_def run_defs register_request_def declared_part_000
      split: sum.splits option.splits)

lemma RegisterUser_part_000_no_ReferenceError:
  "snd (RegisterUser_part_000 base net d) \<noteq> Inl (Threw (ReferenceError n))"
  "snd (RegisterUser_part_000 base net d) \<noteq> Inl (Aborted msg)"
  "snd (RegisterUser_part_000 base net d) \<noteq> Inl Finished"
  by (auto simp: RegisterUser_part_000_def run_defs declared_part_000 get_prop_not_ReferenceError
      split: sum.splits option.splits)

lemma LoginUser_part_000_trace:
  "requested (fst (LoginUser_part_000 base net d)) = [''LoginUser'']"
  "detail_requests (fst (LoginUser_part_000 base net d)) = []"
  "response_of t (fst (LoginUser_part_000 base net d)) =
     (if t = ''LoginUser'' then Some (net (login_request base d)) else None)"
  by (auto simp: LoginUser_part_000_def run_defs login_request_def declared_part_000
      split: sum.splits option.splits)

lemma LoginUser_part_000_no_ReferenceError:
  "snd (LoginUser_part_000 base net d) \<noteq> Inl (Threw (ReferenceError n))"
  "snd (LoginUser_part_000 base net d) \<noteq> Inl (Aborted msg)"
  "snd (LoginUser_part_000 base net d) \<noteq> Inl Finished"
  by (auto simp: LoginUser_part_000_def run_defs declared_part_000 get_prop_not_ReferenceError
      split: sum.splits option.splits)

lemma GetMyCrocodiles_part_000_trace:
  "requested (fst (GetMyCrocodiles_part_000 base net d tok)) = [''GetMyCrocodiles'']"
  "detail_requests (fst (GetMyCrocodiles_part_000 base net d tok)) = []"
  "response_of t (fst (GetMyCrocodiles_part_000 base net d tok)) =
     (if t = ''GetMyCrocodiles'' then Some (net (list_request base tok)) else None)"
  by (auto simp: GetMyCrocodiles_part_000_def run_defs list_request_def declared_part_000
      split: sum.splits option.splits)

lemma GetMyCrocodiles_part_000_no_ReferenceError:
  "snd (GetMyCrocodiles_part_000 base net d tok) \<noteq> Inl (Threw (ReferenceError n))"
  "snd (GetMyCrocodiles_part_000 base net d tok) \<noteq> Inl (Aborted msg)"
  "snd (GetMyCrocodiles_part_000 base net d tok) \<noteq> Inl Finished"
  by (auto simp: GetMyCrocodiles_part_000_def run_defs declared_part_000 get_prop_not_ReferenceError
      split: sum.splits option.splits)

lemma AddCrocodile_part_000_trace:
  "requested (fst (AddCrocodile_part_000 base net d tok)) = [''AddCrocodile'']"
  "detail_requests (fst (AddCrocodile_part_000 base net d tok)) = []"
  "response_of t (fst (AddCrocodile_part_000 base net d tok)) =
     (if t = ''AddCrocodile'' then Some (net (create_request base tok)) else None)"
  by (auto simp: AddCrocodile_part_000_def run_defs create_request_def declared_part_000
      split: sum.splits option.splits)

lemma AddCrocodile_part_000_no_ReferenceError:
  "snd (AddCrocodile_part_000 base net d tok) \<noteq> Inl (Threw (ReferenceError n))"
  "snd (AddCrocodile_part_000 base net d tok) \<noteq> Inl (Aborted msg)"
  "snd (AddCrocodile_part_000 base net d tok) \<noteq> Inl Finished"
  by (auto simp: AddCrocodile_part_000_def run_defs declared_part_000 get_prop_not_ReferenceError
      split: sum.splits option.splits)

lemma GetCrocodile_part_000_trace:
  "requested (fst (GetCrocodile_part_000 base net d tok i)) = [''GetCrocodile'']"
  "detail_requests (fst (GetCrocodile_part_000 base net d tok i)) = [detail_request base tok i]"
  "response_of t (fst (GetCrocodile_part_000 base net d tok i)) =
     (if t = ''GetCrocodile'' then Some (net (detail_request base tok i)) else None)"
  by (auto simp: GetCrocodile_part_000_def run_defs detail_request_def declared_part_000
      split: sum.splits option.splits)

lemma GetCrocodile_part_000_no_ReferenceError:
  "snd (GetCrocodile_part_000 base net d tok i) \<noteq> Inl (Threw (ReferenceError n))"
  "snd (GetCrocodile_part_000 base net d tok i) \<noteq> Inl (Aborted msg)"
  "snd (GetCrocodile_part_000 base net d tok i) \<noteq> Inl Finished"
  by (auto simp: GetCrocodile_part_000_def run_defs declared_part_000 get_prop_not_ReferenceError
      split: sum.splits option.splits)

lemma PutCrocodile_part_000_trace:
  "requested (fst (PutCrocodile_part_000 base net d tok i)) = [''PutCrocodile'']"
  "detail_requests (fst (PutCrocodile_part_000 base net d tok i)) = [put_request base tok i]"
  "response_of t (fst (PutCrocodile_part_000 base net d tok i)) =
     (if t = ''PutCrocodile'' then Some (net (put_request base tok i)) else None)"
  by (auto simp: PutCrocodile_part_000_def run_defs put_request_def declared_part_000
      split: sum.splits option.splits)

lemma PutCrocodile_part_000_no_ReferenceError:
  "snd (PutCrocodile_part_000 base net d tok i) \<noteq> Inl (Threw (ReferenceError n))"
  "snd (PutCrocodile_part_000 base net d tok i) \<noteq> Inl (Aborted msg)"
  "snd (PutCrocodile_part_000 base net d tok i) \<noteq> Inl Finished"
  by (auto simp: PutCrocodile_part_000_def run_defs declared_part_000 get_prop_not_ReferenceError
      split: sum.splits option.splits)

lemma PatchCrocodile_part_000_trace:
  "requested (fst (PatchCrocodile_part_000 base net d tok i)) = [''PatchCrocodile'']"
  "detail_requests (fst (PatchCrocodile_part_000 base net d tok i)) = [patch_request base tok i]"
  "response_of t (fst (PatchCrocodile_part_000 base net d tok i)) =
     (if t = ''PatchCrocodile'' then Some (net (patch_request base tok i)) else None)"
  by (auto simp: PatchCrocodile_part_000_def run_defs patch_request_def declared_part_000
      split: sum.splits option.splits)

lemma PatchCrocodile_part_000_no_ReferenceError:
  "snd (PatchCrocodile_part_000 base net d tok i) \<noteq> Inl (Threw (ReferenceError n))"
  "snd (PatchCrocodile_part_000 base net d tok i) \<noteq> Inl (Aborted msg)"
  "snd (PatchCrocodile_part_000 base net d tok i) \<noteq> Inl Finished"
  by (auto simp: PatchCrocodile_part_000_def run_defs declared_part_000 get_prop_not_ReferenceError
      split: sum.splits option.splits)

lemma DeleteCrocodile_part_000_trace:
  "requested (fst (DeleteCrocodile_part_000 base net d tok i)) = [''DeleteCrocodile'']"
  "detail_requests (fst (DeleteCrocodile_part_000 base net d tok i)) = [delete_request base tok i]"
  "response_of t (fst (DeleteCrocodile_part_000 base net d tok i)) =
     (if t = ''DeleteCrocodile'' then Some (net (delete_request base tok i)) else None)"
  by (auto simp: DeleteCrocodile_part_000_def run_defs delete_request_def declared_part_000
      split: sum.splits option.splits)

lemma DeleteCrocodile_part_000_no_ReferenceError:
  "snd (DeleteCrocodile_part_000 base net d tok i) \<noteq> Inl (Threw (ReferenceError n))"
  "snd (DeleteCrocodile_part_000 base net d tok i) \<noteq> Inl (Aborted msg)"
  "snd (DeleteCrocodile_part_000 base net d tok i) \<noteq> Inl Finished"
  by (auto simp: DeleteCrocodile_part_000_def run_defs declared_part_000 get_prop_not_ReferenceError
      split: sum.splits option.splits)

lemma RegisterUser_fulle2etest_trace:
  "requested (fst (RegisterUser_fulle2etest base net d)) = [''RegisterUser'']"
  "detail_requests (fst (RegisterUser_fulle2etest base net d)) = []"
  "response_of t (fst (RegisterUser_fulle2etest base net d)) =
     (if t = ''RegisterUser'' then Some (net (register_request base d)) else None)"
  by (auto simp: RegisterUser_fulle2etest_def run_defs register_request_def undeclared_fulle2etest
      split: sum.splits option.splits)

lemma LoginUser_fulle2etest_trace:
  "requested (fst (LoginUser_fulle2etest base net d)) = [''LoginUser'']"
  "detail_requests (fst (LoginUser_fulle2etest base net d)) = []"
  "response_of t (fst (LoginUser_fulle2etest base net d)) =
     (if t = ''LoginUser'' then Some (net (login_request base d)) else None)"
  by (auto simp: LoginUser_fulle2etest_def run_defs login_request_def undeclared_fulle2etest
      split: sum.splits option.splits)

lemma GetMyCrocodiles_fulle2etest_trace:
  "requested (fst (GetMyCrocodiles_fulle2etest base net d tok)) = [''GetMyCrocodiles'']"
  "detail_requests (fst (GetMyCrocodiles_fulle2etest base net d tok)) = []"
  "response_of t (fst (GetMyCrocodiles_fulle2etest base net d tok)) =
     (if t = ''GetMyCrocodiles'' then Some (net (list_request base tok)) else None)"
  by (auto simp: GetMyCrocodiles_fulle2etest_def run_defs list_request_def undeclared_fulle2etest
      split: sum.splits option.splits)

lemma AddCrocodile_fulle2etest_trace:
  "requested (fst (AddCrocodile_fulle2etest base net d tok)) = [''AddCrocodile'']"
  "detail_requests (fst (AddCrocodile_fulle2etest base net d tok)) = []"
  "response_of t (fst (AddCrocodile_fulle2etest base net d tok)) =
     (if t = ''AddCrocodile'' then Some (net (create_request base tok)) else None)"
  by (auto simp: AddCrocodile_fulle2etest_def run_defs create_request_def undeclared_fulle2etest
      split: sum.splits option.splits)

subsection \<open>How the login and create steps end\<close>



lemma LoginUser_fulle2etest_eq:
  "LoginUser_fulle2etest base net d = LoginUser_part_000 base net d"
  by (simp add: LoginUser_fulle2etest_def LoginUser_part_000_def)



lemma AddCrocodile_fulle2etest_result:
  "snd (AddCrocodile_fulle2etest base net d tok) =
     Inl (Threw (case body_prop (net (create_request base tok)) ''id'' of
                   Inl e \<Rightarrow> e
                 | Inr v \<Rightarrow> ReferenceError ''newCrocodileId''))"
  by (auto simp: AddCrocodile_fulle2etest_def run_defs undeclared_fulle2etest
      split: sum.splits option.splits)


text \<open>The steps of \<^verbatim>\<open>src/fulle2etest.js\<close> after the create step stop at their first
  read of the identifier.\<close>

lemma later_steps_fulle2etest:
  "GetCrocodile_fulle2etest base net d tok =
     ([], Inl (Threw (ReferenceError ''newCrocodileId'')))"
  "PutCrocodile_fulle2etest base net d tok =
     ([], Inl (Threw (ReferenceError ''newCrocodileId'')))"
  "PatchCrocodile_fulle2etest base net d tok =
     ([], Inl (Threw (ReferenceError ''newCrocodileId'')))"
  "DeleteCrocodile_fulle2etest base net d tok =
     ([], Inl (Threw (ReferenceError ''newCrocodileId'')))"
  by (simp_all add: GetCrocodile_fulle2etest_def PutCrocodile_fulle2etest_def
      PatchCrocodile_fulle2etest_def DeleteCrocodile_fulle2etest_def
      undeclared_fulle2etest statement_def stop_def and_then_def)

lemmas part_000_traces =
  RegisterUser_part_000_trace LoginUser_part_000_trace GetMyCrocodiles_part_000_trace
  AddCrocodile_part_000_trace GetCrocodile_part_000_trace PutCrocodile_part_000_trace
  PatchCrocodile_part_000_trace DeleteCrocodile_part_000_trace

lemmas fulle2etest_traces =
  RegisterUser_fulle2etest_trace LoginUser_fulle2etest_trace
  GetMyCrocodiles_fulle2etest_trace AddCrocodile_fulle2etest_trace

subsection \<open>The checks that each step records\<close>

lemma RegisterUser_part_000_recorded:
  "recorded (fst (RegisterUser_part_000 base net d)) =
     (if status (net (register_request base d)) = 201
         \<and> json (net (register_request base d)) = None
      then [] else [''RegisterUser | status 201'', ''RegisterUser | username matches''])"
  by (auto simp: RegisterUser_part_000_def run_defs split: sum.splits option.splits)











lemma fulle2etest_no_abort:
  "snd (RegisterUser_fulle2etest base net d) \<noteq> Inl (Aborted msg)"
  "snd (GetMyCrocodiles_fulle2etest base net d tok) \<noteq> Inl (Aborted msg)"
  "snd (RegisterUser_fulle2etest base net d) \<noteq> Inl Finished"
  "snd (GetMyCrocodiles_fulle2etest base net d tok) \<noteq> Inl Finished"
  by (auto simp: RegisterUser_fulle2etest_def GetMyCrocodiles_fulle2etest_def run_defs
      split: sum.splits option.splits)

section \<open>Properties of the journey\<close>

text \<open>
  C1. \<^verbatim>\<open>src/fulle2etest.js\<close> declares no \<^verbatim>\<open>newCrocodileId\<close>, and
  \<^verbatim>\<open>src/unnamed/part_000\<close> does. In \<^verbatim>\<open>src/fulle2etest.js\<close> every iteration that
  reaches the create step ends by an exception there: the \<^verbatim>\<open>ReferenceError\<close> of the
  id guard, unless the second create check has thrown already; it sends the requests of
  the first four steps only; no iteration at all reaches the end of the function; and
  each of the steps detail, put, patch and delete, if started, throws the
  \<^verbatim>\<open>ReferenceError\<close> before it sends its request. In \<^verbatim>\<open>src/unnamed/part_000\<close> no
  iteration ends by a \<^verbatim>\<open>ReferenceError\<close>, and against the sample server the
  iteration sends all eight requests and reaches the end.
\<close>

theorem undeclared_newCrocodileId:
  "''newCrocodileId'' \<notin> set identifiers_fulle2etest
   \<and> ''newCrocodileId'' \<in> set identifiers_part_000
   \<and> (response_of ''AddCrocodile'' (fst (default_fulle2etest base net d)) = Some rs \<longrightarrow>
        snd (default_fulle2etest base net d) =
          Threw (case body_prop rs ''id'' of
                   Inl e \<Rightarrow> e
                 | Inr v \<Rightarrow> ReferenceError ''newCrocodileId'')
        \<and> requested (fst (default_fulle2etest base net d)) =
            [''RegisterUser'', ''LoginUser'', ''GetMyCrocodiles'', ''AddCrocodile'']
        \<and> detail_requests (fst (default_fulle2etest base net d)) = [])
   \<and> snd (default_fulle2etest base net d) \<noteq> Finished
   \<and> GetCrocodile_fulle2etest base net d tok =
        ([], Inl (Threw (ReferenceError ''newCrocodileId'')))
   \<and> PutCrocodile_fulle2etest base net d tok =
        ([], Inl (Threw (ReferenceError ''newCrocodileId'')))
   \<and> PatchCrocodile_fulle2etest base net d tok =
        ([], Inl (Threw (ReferenceError ''newCrocodileId'')))
   \<and> DeleteCrocodile_fulle2etest base net d tok =
        ([], Inl (Threw (ReferenceError ''newCrocodileId'')))
   \<and> snd (default_part_000 base net d) \<noteq> Threw (ReferenceError n)
   \<and> snd (default_part_000 ''http://localhost:8000'' sample_server sample_draws) = Finished
   \<and> requested (fst (default_part_000 ''http://localhost:8000'' sample_server sample_draws)) =
        step_names"
proof -
  have declared: "''newCrocodileId'' \<notin> set identifiers_fulle2etest
      \<and> ''newCrocodileId'' \<in> set identifiers_part_000"
    by (simp add: identifiers_fulle2etest_def identifiers_part_000_def)
  have reached: "response_of ''AddCrocodile'' (fst (default_fulle2etest base net d)) = Some rs \<longrightarrow>
        snd (default_fulle2etest base net d) =
          Threw (case body_prop rs ''id'' of
                   Inl e \<Rightarrow> e
                 | Inr v \<Rightarrow> ReferenceError ''newCrocodileId'')
        \<and> requested (fst (default_fulle2etest base net d)) =
            [''RegisterUser'', ''LoginUser'', ''GetMyCrocodiles'', ''AddCrocodile'']
        \<and> detail_requests (fst (default_fulle2etest base net d)) = []"
    by (auto simp: default_fulle2etest_def run_parts traces_append fulle2etest_traces
        AddCrocodile_fulle2etest_result split: sum.splits if_splits)
  have never: "snd (default_fulle2etest base net d) \<noteq> Finished"
    using fulle2etest_no_abort(3) [of base net d]
      LoginUser_part_000_no_ReferenceError(3) [of base net d]
    by (auto simp: default_fulle2etest_def run_parts AddCrocodile_fulle2etest_result
        LoginUser_fulle2etest_eq fulle2etest_no_abort
        split: sum.splits)
  have sibling: "snd (default_part_000 base net d) \<noteq> Threw (ReferenceError n)"
    by (auto simp: default_part_000_def run_parts
        RegisterUser_part_000_no_ReferenceError LoginUser_part_000_no_ReferenceError
        GetMyCrocodiles_part_000_no_ReferenceError AddCrocodile_part_000_no_ReferenceError
        GetCrocodile_part_000_no_ReferenceError PutCrocodile_part_000_no_ReferenceError
        PatchCrocodile_part_000_no_ReferenceError DeleteCrocodile_part_000_no_ReferenceError
        split: sum.splits)
  have sample: "snd (default_part_000 ''http://localhost:8000'' sample_server sample_draws) =
        Finished
      \<and> requested (fst (default_part_000 ''http://localhost:8000'' sample_server sample_draws)) =
        step_names"
    by code_simp
  from declared reached never sibling sample later_steps_fulle2etest [of base net d tok]
  show ?thesis by blast
qed

theorem undeclared_newCrocodileId_witness:
  "response_of ''AddCrocodile''
      (fst (default_fulle2etest ''http://localhost:8000'' sample_server sample_draws)) =
     Some (sample_server (create_request ''http://localhost:8000'' (JStr ''token'')))
   \<and> snd (default_fulle2etest ''http://localhost:8000'' sample_server sample_draws) =
       Threw (ReferenceError ''newCrocodileId'')
   \<and> requested (fst (default_fulle2etest ''http://localhost:8000'' sample_server sample_draws)) =
       [''RegisterUser'', ''LoginUser'', ''GetMyCrocodiles'', ''AddCrocodile'']"
proof -
  let ?base = "''http://localhost:8000''"
  let ?rs = "sample_server (create_request ?base (JStr ''token''))"
  have r: "response_of ''AddCrocodile'' (fst (default_fulle2etest ?base sample_server sample_draws)) =
      Some ?rs"
    by code_simp
  have i: "body_prop ?rs ''id'' = Inr (JNum (Num 7))"
    by code_simp
  from undeclared_newCrocodileId [of ?base sample_server sample_draws ?rs] r i
  show ?thesis by simp
qed








subsection \<open>After a failed registration\<close>

text \<open>
  In \<^verbatim>\<open>src/unnamed/part_000\<close> a registration answered with a status other than 201
  records its two checks, and the login request follows with the same credentials.
\<close>

lemma registration_failure_part_000:
  assumes "status (net (register_request base d)) \<noteq> 201"
  shows "recorded (fst (RegisterUser_part_000 base net d)) =
      [''RegisterUser | status 201'', ''RegisterUser | username matches'']
    \<and> take 2 (requested (fst (default_part_000 base net d))) =
      [''RegisterUser'', ''LoginUser'']
    \<and> response_of ''LoginUser'' (fst (default_part_000 base net d)) =
      Some (net (login_request base d))
    \<and> req_body (login_request base d) = req_body (register_request base d)"
proof -
  have goes_on: "snd (RegisterUser_part_000 base net d) = Inr ()"
    using assms
    by (auto simp: RegisterUser_part_000_def run_defs split: sum.splits option.splits)
  show ?thesis
    using assms goes_on
    by (auto simp: default_part_000_def run_parts traces_append part_000_traces
        RegisterUser_part_000_recorded login_request_def register_request_def
        split: sum.splits)
qed

text \<open>
  In \<^verbatim>\<open>src/fulle2etest.js\<close> the iteration goes on to the login step when the body of
  the registration response is a JSON object, whatever the status; it ends at the
  register step when \<^verbatim>\<open>r.json()\<close> throws or yields \<^verbatim>\<open>null\<close>.
\<close>

lemma registration_failure_fulle2etest:
  "(json (net (register_request base d)) = Some (JObj kvs) \<longrightarrow>
      take 2 (requested (fst (default_fulle2etest base net d))) =
        [''RegisterUser'', ''LoginUser''])
   \<and> (json (net (register_request base d)) = None \<longrightarrow>
        requested (fst (default_fulle2etest base net d)) = [''RegisterUser'']
        \<and> snd (default_fulle2etest base net d) = Threw JsonError)
   \<and> (json (net (register_request base d)) = Some JNull \<longrightarrow>
        requested (fst (default_fulle2etest base net d)) = [''RegisterUser'']
        \<and> snd (default_fulle2etest base net d) = Threw (TypeError ''username''))"
proof -
  have result: "snd (RegisterUser_fulle2etest base net d) =
      (case body_prop (net (register_request base d)) ''username'' of
         Inl e \<Rightarrow> Inl (Threw e)
       | Inr v \<Rightarrow> Inr ())"
    by (auto simp: RegisterUser_fulle2etest_def run_defs split: sum.splits option.splits)
  show ?thesis
    by (auto simp: default_fulle2etest_def run_parts traces_append fulle2etest_traces
        LoginUser_fulle2etest_eq LoginUser_part_000_trace result body_prop_def
        res_json_def attempt_def split: sum.splits)
qed

text \<open>
  C7. A registration that fails with a body that is no JSON text (status 500 here; a
  request that gets no response has status 0 and no body) ends the iteration of
  \<^verbatim>\<open>src/fulle2etest.js\<close> at the register step: the check
  \<^verbatim>\<open>username matches\<close> calls \<^verbatim>\<open>r.json()\<close>, which throws; the check is recorded
  as failed and the exception leaves \<^verbatim>\<open>check\<close>, so no login request is sent. Against
  the same network the iteration of \<^verbatim>\<open>src/unnamed/part_000\<close>, which reads the body
  only under status 201, records the two failed checks, sends the login request with the
  same credentials and reaches the end.
\<close>

theorem registration_failure_ends_iteration:
  "requested
      (fst (default_fulle2etest ''http://localhost:8000''
              (answering ''RegisterUser'' (no_json 500) sample_server) sample_draws)) =
     [''RegisterUser'']
   \<and> recorded
        (fst (default_fulle2etest ''http://localhost:8000''
                (answering ''RegisterUser'' (no_json 500) sample_server) sample_draws)) =
       [''RegisterUser | status 201'', ''RegisterUser | username matches'']
   \<and> snd (default_fulle2etest ''http://localhost:8000''
            (answering ''RegisterUser'' (no_json 500) sample_server) sample_draws) =
       Threw JsonError
   \<and> requested
        (fst (default_part_000 ''http://localhost:8000''
                (answering ''RegisterUser'' (no_json 500) sample_server) sample_draws)) =
       step_names
   \<and> req_body (login_request ''http://localhost:8000'' sample_draws) =
       req_body (register_request ''http://localhost:8000'' sample_draws)
   \<and> snd (default_part_000 ''http://localhost:8000''
            (answering ''RegisterUser'' (no_json 500) sample_server) sample_draws) =
       Finished"
  by code_simp

text \<open>
  C8. \<^verbatim>\<open>setup\<close> logs, sends one GET request to the base URL and aborts the test with
  the message \<^verbatim>\<open>Service is not available\<close> if and only if the status of the response
  is not 200; with status 200 it logs once more and reaches its end. A test run calls
  \<^verbatim>\<open>setup\<close> once, before the iterations; the run that \<^verbatim>\<open>setup\<close> aborts executes
  no iteration, and every other run executes all of them. This holds for both files.
\<close>

theorem availability_precheck:
  "fst (setup_part_000 base net) =
     [Log ''Checking if service is available...'',
      Http (availability_request base) (net (availability_request base))]
     @ (if status (net (availability_request base)) = 200
        then [Log ''Service is available''] else [])
   \<and> snd (setup_part_000 base net) =
       (if status (net (availability_request base)) = 200 then Finished
        else Aborted ''Service is not available'')
   \<and> (snd (setup_part_000 base net) = Aborted ''Service is not available'') =
       (status (net (availability_request base)) \<noteq> 200)
   \<and> req_method (availability_request base) = GET
   \<and> req_url (availability_request base) = Url base
   \<and> test_run_part_000 base net its =
       (setup_part_000 base net,
        if status (net (availability_request base)) = 200
        then map (\<lambda>(n, d). default_part_000 base n d) its else [])
   \<and> setup_fulle2etest base net = setup_part_000 base net
   \<and> test_run_fulle2etest base net its =
       (setup_fulle2etest base net,
        if status (net (availability_request base)) = 200
        then map (\<lambda>(n, d). default_fulle2etest base n d) its else [])"
  by (simp add: setup_part_000_def setup_fulle2etest_def test_run_part_000_def
      test_run_fulle2etest_def run_of_def availability_request_def and_then_def
      console_log_def http_send_def stop_def pure_def finish_def)

end
